theory Spec2Isabelle
  imports
    Complex_Main
    "HOL-Library.Char_ord"
    "HOL-Library.List_Lexorder"
    "HOL-Library.Product_Lexorder"
begin

section \<open>Python strings\<close>

text \<open>
  A Python \<open>str\<close> is modelled as the list of its code points, one \<^typ>\<open>char\<close> each, so the
  model covers texts whose code points lie below 256 (ASCII and Latin-1, which holds the
  accented letters of the French keywords the program looks for). \<open>len\<close> is
  \<^const>\<open>length\<close>, string comparison is the lexicographic order on code points.
\<close>

definition is_space :: "char \<Rightarrow> bool" where
  \<comment> \<open>\<open>str.isspace\<close> on one code point; also what \<open>\s\<close> matches.\<close>
  "is_space c =
     (let n = (of_char c :: nat)
      in (9 \<le> n \<and> n \<le> 13) \<or> (28 \<le> n \<and> n \<le> 32) \<or> n = 133 \<or> n = 160)"

definition is_upper :: "char \<Rightarrow> bool" where
  "is_upper c =
     (let n = (of_char c :: nat)
      in (65 \<le> n \<and> n \<le> 90) \<or> (192 \<le> n \<and> n \<le> 222 \<and> n \<noteq> 215))"

definition lower_char :: "char \<Rightarrow> char" where
  \<comment> \<open>An upper-case letter and its lower-case form differ in the bit of value 32.\<close>
  "lower_char c =
     (if is_upper c
      then (case c of Char b0 b1 b2 b3 b4 b5 b6 b7 \<Rightarrow> Char b0 b1 b2 b3 b4 True b6 b7)
      else c)"

definition lower :: "string \<Rightarrow> string" where
  "lower s = map lower_char s"

definition strip :: "string \<Rightarrow> string" where
  \<comment> \<open>\<open>str.strip()\<close>: white space removed at both ends.\<close>
  "strip s = rev (dropWhile is_space (rev (dropWhile is_space s)))"

definition startswith :: "string \<Rightarrow> string \<Rightarrow> bool" where
  "startswith s p = (take (length p) s = p)"

definition endswith :: "string \<Rightarrow> string \<Rightarrow> bool" where
  "endswith s p = (length p \<le> length s \<and> drop (length s - length p) s = p)"

fun contains :: "string \<Rightarrow> string \<Rightarrow> bool" where
  \<comment> \<open>\<open>p in s\<close> for two strings.\<close>
  "contains [] p = (p = [])"
| "contains (c # cs) p = (startswith (c # cs) p \<or> contains cs p)"

definition is_lower :: "char \<Rightarrow> bool" where
  "is_lower c =
     (let n = (of_char c :: nat)
      in (97 \<le> n \<and> n \<le> 122) \<or> (224 \<le> n \<and> n \<le> 254 \<and> n \<noteq> 247))"

definition upper_char :: "char \<Rightarrow> char" where
  "upper_char c =
     (if is_lower c
      then (case c of Char b0 b1 b2 b3 b4 b5 b6 b7 \<Rightarrow> Char b0 b1 b2 b3 b4 False b6 b7)
      else c)"

definition is_digit :: "char \<Rightarrow> bool" where
  \<comment> \<open>What \<open>\d\<close> matches.\<close>
  "is_digit c = (let n = (of_char c :: nat) in 48 \<le> n \<and> n \<le> 57)"

definition is_word :: "char \<Rightarrow> bool" where
  \<comment> \<open>What \<open>\w\<close> matches: the alphanumeric code points and the underscore.\<close>
  "is_word c =
     (let n = (of_char c :: nat)
      in (48 \<le> n \<and> n \<le> 57) \<or> (65 \<le> n \<and> n \<le> 90) \<or> n = 95 \<or> (97 \<le> n \<and> n \<le> 122)
         \<or> n = 170 \<or> n = 178 \<or> n = 179 \<or> n = 181 \<or> n = 185 \<or> n = 186
         \<or> (188 \<le> n \<and> n \<le> 190) \<or> (192 \<le> n \<and> n \<le> 214) \<or> (216 \<le> n \<and> n \<le> 246)
         \<or> (248 \<le> n \<and> n \<le> 255))"

fun split_acc :: "string \<Rightarrow> string \<Rightarrow> string list" where
  "split_acc cur [] = (if cur = [] then [] else [rev cur])"
| "split_acc cur (c # cs) =
     (if is_space c then (if cur = [] then split_acc [] cs else rev cur # split_acc [] cs)
      else split_acc (c # cur) cs)"

definition split_ws :: "string \<Rightarrow> string list" where
  \<comment> \<open>\<open>str.split()\<close> without argument: the maximal runs of characters that are not white
      space. \<open>split_acc\<close> scans the text with the word read so far (reversed).\<close>
  "split_ws s = split_acc [] s"

fun split_on :: "char \<Rightarrow> string \<Rightarrow> string list" where
  \<comment> \<open>\<open>str.split(sep)\<close> for a separator of one character.\<close>
  "split_on sep [] = [[]]"
| "split_on sep (c # cs) =
     (if c = sep then [] # split_on sep cs
      else (case split_on sep cs of [] \<Rightarrow> [[c]] | w # ws \<Rightarrow> (c # w) # ws))"

function str_replace :: "string \<Rightarrow> string \<Rightarrow> string \<Rightarrow> string" where
  \<comment> \<open>\<open>s.replace(old, new)\<close> for a non-empty \<open>old\<close>: occurrences are replaced from the left
      and do not overlap.\<close>
  "str_replace old new s =
     (case s of [] \<Rightarrow> []
      | c # cs \<Rightarrow>
          if old \<noteq> [] \<and> startswith s old then new @ str_replace old new (drop (length old) s)
          else c # str_replace old new cs)"
  by pat_completeness auto
termination
  by (relation "measure (\<lambda>(old, new, s). length s)") auto

function collapse_ws :: "string \<Rightarrow> string" where
  \<comment> \<open>\<open>re.sub(r'\s+', ' ', s)\<close>: every maximal run of white space becomes one blank.\<close>
  "collapse_ws s =
     (case s of [] \<Rightarrow> []
      | c # cs \<Rightarrow>
          if is_space c then CHR '' '' # collapse_ws (dropWhile is_space cs)
          else c # collapse_ws cs)"
  by pat_completeness auto
termination
  by (relation "measure length") (auto simp add: length_dropWhile_le less_Suc_eq_le)

section \<open>Enumerations (config/settings.py)\<close>

datatype SCRModule =
  SPREAD | INTEREST_RATE | EQUITY | CURRENCY | CONCENTRATION
  | MARKET_GLOBAL | COUNTERPARTY | OPERATIONAL | LIFE | NON_LIFE

fun scr_module_value :: "SCRModule \<Rightarrow> string" where
  "scr_module_value SPREAD = ''spread''"
| "scr_module_value INTEREST_RATE = ''interest_rate''"
| "scr_module_value EQUITY = ''equity''"
| "scr_module_value CURRENCY = ''currency''"
| "scr_module_value CONCENTRATION = ''concentration''"
| "scr_module_value MARKET_GLOBAL = ''market_global''"
| "scr_module_value COUNTERPARTY = ''counterparty''"
| "scr_module_value OPERATIONAL = ''operational''"
| "scr_module_value LIFE = ''life''"
| "scr_module_value NON_LIFE = ''non_life''"

datatype DocumentType =
  REGULATION_EU | DIRECTIVE | EIOPA_GUIDELINES | TECHNICAL_STANDARDS
  | INDUSTRY_PAPER | INTERNAL_DOC | ACADEMIC_PAPER

fun doc_type_value :: "DocumentType \<Rightarrow> string" where
  "doc_type_value REGULATION_EU = ''regulation_eu''"
| "doc_type_value DIRECTIVE = ''directive''"
| "doc_type_value EIOPA_GUIDELINES = ''eiopa_guidelines''"
| "doc_type_value TECHNICAL_STANDARDS = ''technical_standards''"
| "doc_type_value INDUSTRY_PAPER = ''industry_paper''"
| "doc_type_value INTERNAL_DOC = ''internal_doc''"
| "doc_type_value ACADEMIC_PAPER = ''academic_paper''"

datatype AIProvider = CLAUDE_SONNET_4 | CLAUDE_OPUS_4 | GPT_4 | GPT_4_TURBO | GEMINI_PRO

datatype ExpertiseLevel = JUNIOR | CONFIRMED | EXPERT | REGULATION_SPECIALIST

section \<open>Data models (knowledge/models.py)\<close>

text \<open>
  Every exception the modelled code can raise is a value of \<open>error\<close>; a constructor that
  validates in \<open>__post_init__\<close> returns \<open>error + record\<close>. Scores are Python floats; the
  model computes with them as real numbers. A \<open>datetime\<close> is a clock reading in
  \<^typ>\<open>nat\<close>, a \<open>date\<close> the ordinal of its day.
\<close>

datatype error = ValueError | FileNotFoundError | LibraryError

type_synonym date = nat
type_synonym datetime = nat

record DocumentSource =
  ds_id :: string
  ds_title :: string
  ds_doc_type :: DocumentType
  ds_url :: "string option"
  ds_file_path :: "string option"
  ds_publication_date :: "date option"
  ds_regulatory_articles :: "string list"
  ds_scr_modules :: "SCRModule list"
  ds_language :: string
  ds_reliability_score :: real
  ds_last_updated :: datetime
  ds_content_hash :: string

definition DocumentSource_post_init :: "DocumentSource \<Rightarrow> error + DocumentSource" where
  \<comment> \<open>\<open>DocumentSource.__post_init__\<close>, run on the fields the constructor was given.\<close>
  "DocumentSource_post_init d =
     (if \<not> (0 \<le> ds_reliability_score d \<and> ds_reliability_score d \<le> 1) then Inl ValueError
      else if ds_language d \<notin> set [''fr'', ''en'', ''de'', ''es'', ''it'']
        then Inr (d\<lparr>ds_language := ''fr''\<rparr>)
      else Inr d)"

record SCRConcept =
  sc_concept_name :: string
  sc_scr_module :: SCRModule
  sc_definition :: string
  sc_id :: "int option"
  sc_formula :: "string option"
  sc_regulatory_article :: "string option"
  sc_source_document_id :: "string option"
  sc_examples :: "string list"
  sc_tags :: "string list"
  sc_created_at :: datetime
  sc_updated_at :: datetime
  sc_confidence_score :: real

definition SCRConcept_post_init :: "SCRConcept \<Rightarrow> error + SCRConcept" where
  "SCRConcept_post_init c =
     (if \<not> (0 \<le> sc_confidence_score c \<and> sc_confidence_score c \<le> 1) then Inl ValueError
      else let c' = c\<lparr>sc_concept_name := strip (sc_concept_name c)\<rparr>
           in if length (sc_concept_name c') < 3 then Inl ValueError else Inr c')"

definition add_example :: "datetime \<Rightarrow> string \<Rightarrow> SCRConcept \<Rightarrow> SCRConcept" where
  \<comment> \<open>\<open>SCRConcept.add_example\<close>; the first argument is what \<open>datetime.now()\<close> returns.\<close>
  "add_example now example c =
     (if strip example \<noteq> [] \<and> example \<notin> set (sc_examples c)
      then c\<lparr>sc_examples := sc_examples c @ [strip example], sc_updated_at := now\<rparr>
      else c)"

record PromptConfig =
  pc_ai_provider :: AIProvider
  pc_expertise_level :: ExpertiseLevel
  pc_scr_module :: SCRModule
  pc_language :: string
  pc_output_format :: string
  pc_include_examples :: bool
  pc_include_formulas :: bool
  pc_include_regulatory_refs :: bool
  pc_max_length :: int
  pc_custom_requirements :: "string list"
  pc_context_level :: string
  pc_technical_depth :: int

definition validate_technical_depth :: "PromptConfig \<Rightarrow> PromptConfig" where
  "validate_technical_depth p =
     (if \<not> (1 \<le> pc_technical_depth p \<and> pc_technical_depth p \<le> 5)
      then p\<lparr>pc_technical_depth := 3\<rparr> else p)"

definition validate_context_level :: "PromptConfig \<Rightarrow> PromptConfig" where
  "validate_context_level p =
     (if pc_context_level p \<notin> set [''low'', ''medium'', ''high'']
      then p\<lparr>pc_context_level := ''high''\<rparr> else p)"

definition validate_max_length :: "PromptConfig \<Rightarrow> PromptConfig" where
  "validate_max_length p =
     (if pc_max_length p < 500 then p\<lparr>pc_max_length := 500\<rparr>
      else if pc_max_length p > 10000 then p\<lparr>pc_max_length := 10000\<rparr>
      else p)"

definition PromptConfig_post_init :: "PromptConfig \<Rightarrow> PromptConfig" where
  \<comment> \<open>\<open>PromptConfig.__post_init__\<close>: three checks in the source's order; none raises.\<close>
  "PromptConfig_post_init p =
     validate_max_length (validate_context_level (validate_technical_depth p))"

definition clamp_int :: "int \<Rightarrow> int \<Rightarrow> int \<Rightarrow> int" where
  \<comment> \<open>The nearest value of the range \<open>lo..hi\<close>: what ``clamped to the nearest bound'' means.\<close>
  "clamp_int lo hi x = max lo (min hi x)"

section \<open>Regular expressions (the \<open>re\<close> module, as far as the patterns of the program go)\<close>

text \<open>
  The program's patterns use literals, the classes \<open>\d \s \w\<close>, bracket classes, \<open>.\<close>,
  \<open>\b\<close>, groups, alternation and the quantifiers \<open>* + ? {m,n} *?\<close>. \<open>re\<close> matches by
  backtracking: the first way of matching that succeeds, in the order in which the
  quantifiers try their alternatives, is the match. The model computes, for a pattern and
  a position, the list of all ways to match in that order; its head is what \<open>re\<close> finds.

  A matching state is the character before the position (for \<open>\b\<close>), the text from the
  position on, and the groups captured so far.
\<close>

datatype cset = CChar char | CRange char char | CDigit | CSpace | CWord

fun in_cset :: "cset \<Rightarrow> char \<Rightarrow> bool" where
  "in_cset (CChar a) c = (c = a)"
| "in_cset (CRange a b) c = ((of_char a :: nat) \<le> of_char c \<and> (of_char c :: nat) \<le> of_char b)"
| "in_cset CDigit c = is_digit c"
| "in_cset CSpace c = is_space c"
| "in_cset CWord c = is_word c"

datatype rx =
  Lit char | Dot | In "cset list" | NotIn "cset list"
  | Seq rx rx | Alt rx rx | Star rx | StarLazy rx | Opt rx | Rep nat nat rx
  | Group nat rx | WordB

type_synonym mstate = "char option \<times> string \<times> (nat \<times> string) list"

definition one_char :: "(char \<Rightarrow> bool) \<Rightarrow> mstate \<Rightarrow> mstate list" where
  "one_char P st =
     (case st of (prev, s, g) \<Rightarrow>
        (case s of [] \<Rightarrow> [] | c # cs \<Rightarrow> if P c then [(Some c, cs, g)] else []))"

definition class_test :: "bool \<Rightarrow> (char \<Rightarrow> bool) \<Rightarrow> char \<Rightarrow> bool" where
  \<comment> \<open>Under \<open>re.IGNORECASE\<close> a class is tried on the lower-case form of the character and
      on the upper-case form of that.\<close>
  "class_test ic P c =
     (if ic then P (lower_char c) \<or> P (upper_char (lower_char c)) else P c)"

definition progress :: "mstate \<Rightarrow> mstate \<Rightarrow> bool" where
  "progress st st' = (length (fst (snd st')) < length (fst (snd st)))"

function star_greedy :: "(mstate \<Rightarrow> mstate list) \<Rightarrow> mstate \<Rightarrow> mstate list" where
  \<comment> \<open>\<open>r*\<close>: one more repetition is tried before stopping; a repetition that consumes
      nothing ends the loop.\<close>
  "star_greedy f st = concat (map (star_greedy f) (filter (progress st) (f st))) @ [st]"
  by pat_completeness auto
termination
  by (relation "measure (\<lambda>(f, st). length (fst (snd st)))") (auto simp add: progress_def)

function star_lazy :: "(mstate \<Rightarrow> mstate list) \<Rightarrow> mstate \<Rightarrow> mstate list" where
  \<comment> \<open>\<open>r*?\<close>: stopping is tried before one more repetition.\<close>
  "star_lazy f st = st # concat (map (star_lazy f) (filter (progress st) (f st)))"
  by pat_completeness auto
termination
  by (relation "measure (\<lambda>(f, st). length (fst (snd st)))") (auto simp add: progress_def)

function rep_greedy :: "nat \<Rightarrow> nat \<Rightarrow> (mstate \<Rightarrow> mstate list) \<Rightarrow> mstate \<Rightarrow> mstate list" where
  \<comment> \<open>\<open>r{lo,hi}\<close>: up to \<open>hi\<close> repetitions, as many as possible first, at least \<open>lo\<close>.\<close>
  "rep_greedy lo hi f st =
     (if hi = 0 then [] else concat (map (rep_greedy (lo - 1) (hi - 1) f) (f st)))
     @ (if lo = 0 then [st] else [])"
  by pat_completeness auto
termination
  by (relation "measure (\<lambda>(lo, hi, f, st). hi)") auto

definition at_word_boundary :: "char option \<Rightarrow> string \<Rightarrow> bool" where
  "at_word_boundary prev s =
     ((case prev of None \<Rightarrow> False | Some c \<Rightarrow> is_word c)
        \<noteq> (case s of [] \<Rightarrow> False | c # cs \<Rightarrow> is_word c))"

primrec ms :: "bool \<Rightarrow> rx \<Rightarrow> mstate \<Rightarrow> mstate list" where
  \<comment> \<open>All ways to match the pattern at a state, in backtracking order; the first argument
      is the flag \<open>re.IGNORECASE\<close>.\<close>
  "ms ic (Lit a) = one_char (\<lambda>c. if ic then lower_char c = lower_char a else c = a)"
| "ms ic Dot = one_char (\<lambda>c. c \<noteq> CHR 0x0A)"
| "ms ic (In cs) = one_char (class_test ic (\<lambda>c. \<exists>k \<in> set cs. in_cset k c))"
| "ms ic (NotIn cs) = one_char (class_test ic (\<lambda>c. \<not> (\<exists>k \<in> set cs. in_cset k c)))"
| "ms ic (Seq a b) = (\<lambda>st. concat (map (ms ic b) (ms ic a st)))"
| "ms ic (Alt a b) = (\<lambda>st. ms ic a st @ ms ic b st)"
| "ms ic (Star a) = star_greedy (ms ic a)"
| "ms ic (StarLazy a) = star_lazy (ms ic a)"
| "ms ic (Opt a) = (\<lambda>st. ms ic a st @ [st])"
| "ms ic (Rep lo hi a) = rep_greedy lo hi (ms ic a)"
| "ms ic (Group k a) =
     (\<lambda>st. map (\<lambda>st'. (fst st', fst (snd st'),
                 (k, take (length (fst (snd st)) - length (fst (snd st'))) (fst (snd st)))
                 # snd (snd st')))
              (ms ic a st))"
| "ms ic WordB = (\<lambda>st. if at_word_boundary (fst st) (fst (snd st)) then [st] else [])"

record rmatch =
  m_start :: nat
  m_end :: nat
  m_groups :: "(nat \<times> string) list"

function finditer_from :: "bool \<Rightarrow> rx \<Rightarrow> nat \<Rightarrow> char option \<Rightarrow> string \<Rightarrow> rmatch list" where
  \<comment> \<open>\<open>re.finditer\<close> from offset \<open>pos\<close>: the matches from left to right, none overlapping
      the one before. The patterns of the program match no empty string; after an empty
      match the scan moves on by one character.\<close>
  "finditer_from ic r pos prev s =
     (case ms ic r (prev, s, []) of
        [] \<Rightarrow> (case s of [] \<Rightarrow> [] | c # cs \<Rightarrow> finditer_from ic r (Suc pos) (Some c) cs)
      | st # _ \<Rightarrow>
          \<lparr>m_start = pos, m_end = pos + (length s - length (fst (snd st))),
           m_groups = snd (snd st)\<rparr>
          # (if length (fst (snd st)) < length s
             then finditer_from ic r (pos + (length s - length (fst (snd st))))
                    (fst st) (fst (snd st))
             else (case s of [] \<Rightarrow> [] | c # cs \<Rightarrow> finditer_from ic r (Suc pos) (Some c) cs)))"
  by pat_completeness auto
termination
  by (relation "measure (\<lambda>(ic, r, pos, prev, s). length s)") auto

definition finditer :: "bool \<Rightarrow> rx \<Rightarrow> string \<Rightarrow> rmatch list" where
  "finditer ic r s = finditer_from ic r 0 None s"

definition search :: "bool \<Rightarrow> rx \<Rightarrow> string \<Rightarrow> rmatch option" where
  \<comment> \<open>\<open>re.search\<close>: the leftmost match.\<close>
  "search ic r s = (case finditer ic r s of [] \<Rightarrow> None | m # _ \<Rightarrow> Some m)"

definition match_group :: "nat \<Rightarrow> rmatch \<Rightarrow> string" where
  \<comment> \<open>\<open>match.group(k)\<close>. Every group of the program's patterns takes part in every match
      of its pattern, so the group is always there.\<close>
  "match_group k m = (case map_of (m_groups m) k of Some s \<Rightarrow> s | None \<Rightarrow> [])"

definition lits :: "string \<Rightarrow> rx \<Rightarrow> rx" where
  \<comment> \<open>The characters of a string, one literal each, then the rest of the pattern.\<close>
  "lits s r = foldr (\<lambda>c. Seq (Lit c)) s r"

definition rx_plus :: "rx \<Rightarrow> rx" where
  \<comment> \<open>\<open>r+\<close>\<close>
  "rx_plus r = Seq r (Star r)"

section \<open>Article extraction (parsers/base_parser.py)\<close>

definition article_number :: rx where
  \<comment> \<open>\<open>(\d+[a-z]?)\<close>\<close>
  "article_number =
     Group 1 (Seq (rx_plus (In [CDigit])) (Opt (In [CRange CHR ''a'' CHR ''z''])))"

definition pattern_article :: rx where
  \<comment> \<open>\<open>Article\s+(\d+[a-z]?)\b\<close>\<close>
  "pattern_article = lits ''Article'' (Seq (rx_plus (In [CSpace])) (Seq article_number WordB))"

definition pattern_art :: rx where
  \<comment> \<open>\<open>Art\.\s+(\d+[a-z]?)\b\<close>\<close>
  "pattern_art = lits ''Art.'' (Seq (rx_plus (In [CSpace])) (Seq article_number WordB))"

definition pattern_article_paren :: rx where
  \<comment> \<open>\<open>Article\s+(\d+[a-z]?)\s*\([^)]+\)\<close>\<close>
  "pattern_article_paren =
     lits ''Article'' (Seq (rx_plus (In [CSpace])) (Seq article_number
       (Seq (Star (In [CSpace])) (Seq (Lit CHR ''('')
         (Seq (rx_plus (NotIn [CChar CHR '')''])) (Lit CHR '')''))))))"

definition slash_number :: rx where
  \<comment> \<open>\<open>\d+/\d+\<close>\<close>
  "slash_number = Seq (rx_plus (In [CDigit])) (Seq (Lit CHR ''/'') (rx_plus (In [CDigit])))"

definition pattern_regulation :: rx where
  \<comment> \<open>\<open>(?:Reglement|Regulation).*?(\d+/\d+)\<close>; the second letter of the first word is an
      e with grave accent (code point 0xE8), written without it here.\<close>
  "pattern_regulation =
     Seq (Alt (lits ([CHR ''R'', CHR 0xE8] @ ''glemen'') (Lit CHR ''t''))
              (lits ''Regulatio'' (Lit CHR ''n'')))
       (Seq (StarLazy Dot) (Group 1 slash_number))"

definition pattern_directive :: rx where
  \<comment> \<open>\<open>Directive.*?(\d+/\d+/CE)\<close>\<close>
  "pattern_directive =
     lits ''Directive''
       (Seq (StarLazy Dot) (Group 1 (Seq slash_number (lits ''/C'' (Lit CHR ''E'')))))"

definition article_patterns :: "rx list" where
  "article_patterns =
     [pattern_article, pattern_art, pattern_article_paren, pattern_regulation,
      pattern_directive]"

definition matched_identifiers :: "string \<Rightarrow> string list" where
  \<comment> \<open>\<open>match.group(1).strip()\<close> for every match of every pattern, in the order of the two
      loops of \<open>extract_regulatory_articles\<close>.\<close>
  "matched_identifiers content =
     concat (map (\<lambda>pattern. map (\<lambda>m. strip (match_group 1 m)) (finditer True pattern content))
               article_patterns)"

definition add_article :: "string list \<Rightarrow> string \<Rightarrow> string list" where
  \<comment> \<open>The body of the inner loop. The Python set \<open>articles\<close> is kept as a list without
      repetition.\<close>
  "add_article articles article =
     (if article \<noteq> [] \<and> length article \<le> 10 then List.insert article articles else articles)"

definition article_key :: "string \<Rightarrow> nat \<times> string" where
  \<comment> \<open>\<open>key=lambda x: (len(x), x)\<close>\<close>
  "article_key x = (length x, x)"

definition extract_regulatory_articles :: "string \<Rightarrow> string list" where
  "extract_regulatory_articles content =
     (let articles = foldl add_article [] (matched_identifiers content)
      in sort_key article_key articles)"

section \<open>Sample values\<close>

text \<open>Concrete inputs at which the properties below are instantiated.\<close>

definition sample_document :: "real \<Rightarrow> DocumentSource" where
  "sample_document r =
     \<lparr>ds_id = ''regulation_eu_reglement_0cc175b9'', ds_title = ''Reglement delegue 2015/35'',
      ds_doc_type = REGULATION_EU, ds_url = None, ds_file_path = Some ''reglement.pdf'',
      ds_publication_date = None, ds_regulatory_articles = [''180''],
      ds_scr_modules = [SPREAD], ds_language = ''fr'', ds_reliability_score = r,
      ds_last_updated = 0, ds_content_hash = ''0cc175b9c0f1b6a831c399e269772661''\<rparr>"

definition sample_concept :: SCRConcept where
  "sample_concept =
     \<lparr>sc_concept_name = ''Facteur de stress'', sc_scr_module = SPREAD,
      sc_definition = ''choc applique aux obligations'', sc_id = None, sc_formula = None,
      sc_regulatory_article = Some ''180'', sc_source_document_id = None,
      sc_examples = [], sc_tags = [], sc_created_at = 0, sc_updated_at = 0,
      sc_confidence_score = 4/5\<rparr>"

definition sample_config :: "int \<Rightarrow> int \<Rightarrow> PromptConfig" where
  "sample_config depth len =
     \<lparr>pc_ai_provider = CLAUDE_SONNET_4, pc_expertise_level = EXPERT, pc_scr_module = SPREAD,
      pc_language = ''fr'', pc_output_format = ''technical_sheet'', pc_include_examples = True,
      pc_include_formulas = True, pc_include_regulatory_refs = True, pc_max_length = len,
      pc_custom_requirements = [], pc_context_level = ''high'', pc_technical_depth = depth\<rparr>"

section \<open>Document model: the reliability check\<close>

lemma DocumentSource_post_init_ok:
  "0 \<le> ds_reliability_score d \<Longrightarrow> ds_reliability_score d \<le> 1 \<Longrightarrow>
     \<exists>d'. DocumentSource_post_init d = Inr d' \<and> ds_reliability_score d' = ds_reliability_score d"
  by (simp add: DocumentSource_post_init_def)

lemma DocumentSource_post_init_fails:
  "ds_reliability_score d < 0 \<or> 1 < ds_reliability_score d \<Longrightarrow>
     DocumentSource_post_init d = Inl ValueError"
  by (auto simp add: DocumentSource_post_init_def)

text \<open>
  C8. Constructing a Document succeeds for every reliability score in the closed interval
  from 0 to 1, whatever the other fields are (no other field is checked: an unsupported
  language is replaced by \<open>fr\<close>), and the record built keeps the id and the score it was
  given. For every score strictly below 0 or strictly above 1 the constructor raises
  ValueError, so no Document is produced.
\<close>

theorem C8_reliability_score_validation:
  "(0 \<le> ds_reliability_score d \<and> ds_reliability_score d \<le> 1 \<longrightarrow>
      (\<exists>d'. DocumentSource_post_init d = Inr d'
         \<and> ds_reliability_score d' = ds_reliability_score d \<and> ds_id d' = ds_id d))
   \<and> (ds_reliability_score d < 0 \<or> 1 < ds_reliability_score d \<longrightarrow>
         DocumentSource_post_init d = Inl ValueError)"
  by (auto simp add: DocumentSource_post_init_def)

theorem C8_reliability_score_validation_witness:
  "(\<exists>d'. DocumentSource_post_init (sample_document 1) = Inr d'
      \<and> ds_reliability_score d' = 1 \<and> ds_id d' = ''regulation_eu_reglement_0cc175b9'')
   \<and> DocumentSource_post_init (sample_document (3/2)) = Inl ValueError
   \<and> DocumentSource_post_init (sample_document (-1/10)) = Inl ValueError"
  using C8_reliability_score_validation [of "sample_document 1"]
    C8_reliability_score_validation [of "sample_document (3/2)"]
    C8_reliability_score_validation [of "sample_document (-1/10)"]
  by (simp add: sample_document_def)

section \<open>Prompt configuration: out-of-range numeric fields\<close>

lemma PromptConfig_post_init_max_length:
  "pc_max_length (PromptConfig_post_init p) = clamp_int 500 10000 (pc_max_length p)"
  by (simp add: PromptConfig_post_init_def validate_max_length_def validate_context_level_def
      validate_technical_depth_def clamp_int_def)

lemma PromptConfig_post_init_technical_depth:
  "pc_technical_depth (PromptConfig_post_init p) =
     (if 1 \<le> pc_technical_depth p \<and> pc_technical_depth p \<le> 5 then pc_technical_depth p else 3)"
  by (auto simp add: PromptConfig_post_init_def validate_max_length_def validate_context_level_def
      validate_technical_depth_def)

text \<open>
  C9, as stated, fails: a \<open>technical_depth\<close> of 7 is not clamped to 5, the nearest bound of
  its range; the constructor stores the default 3.
\<close>

theorem C9_technical_depth_counterexample:
  "pc_technical_depth (PromptConfig_post_init (sample_config 7 3000)) = 3
   \<and> clamp_int 1 5 (pc_technical_depth (sample_config 7 3000)) = 5"
  by (simp add: PromptConfig_post_init_def validate_max_length_def validate_context_level_def
      validate_technical_depth_def clamp_int_def sample_config_def)

text \<open>
  C9, amended. Constructing a PromptConfig never fails (the constructor is a total function
  that raises nowhere). A \<open>max_length\<close> outside 500..10000 is clamped to the nearest bound of
  that range; a \<open>technical_depth\<close> outside 1..5 is replaced by the default 3, not clamped;
  values inside their range are kept.
\<close>

theorem C9_numeric_fields_amended:
  "pc_max_length (PromptConfig_post_init p) = clamp_int 500 10000 (pc_max_length p)
   \<and> 500 \<le> pc_max_length (PromptConfig_post_init p)
   \<and> pc_max_length (PromptConfig_post_init p) \<le> 10000
   \<and> pc_technical_depth (PromptConfig_post_init p) =
       (if 1 \<le> pc_technical_depth p \<and> pc_technical_depth p \<le> 5 then pc_technical_depth p else 3)
   \<and> 1 \<le> pc_technical_depth (PromptConfig_post_init p)
   \<and> pc_technical_depth (PromptConfig_post_init p) \<le> 5"
  by (simp add: PromptConfig_post_init_max_length PromptConfig_post_init_technical_depth clamp_int_def)

theorem C9_numeric_fields_amended_witness:
  "pc_max_length (PromptConfig_post_init (sample_config 0 100)) = 500
   \<and> pc_technical_depth (PromptConfig_post_init (sample_config 0 100)) = 3
   \<and> pc_max_length (PromptConfig_post_init (sample_config 4 20000)) = 10000
   \<and> pc_technical_depth (PromptConfig_post_init (sample_config 4 20000)) = 4"
  using C9_numeric_fields_amended [of "sample_config 0 100"]
    C9_numeric_fields_amended [of "sample_config 4 20000"]
  by (simp add: sample_config_def clamp_int_def)

section \<open>Concept examples: adding the same example twice\<close>

text \<open>
  C10 at a failing input. The example \<open>" VaR"\<close> (one leading blank) is added twice to a
  concept that has no examples. \<open>add_example\<close> tests membership of the string as given but
  appends the stripped string, so the second call does not find \<open>" VaR"\<close> among the examples
  and appends \<open>"VaR"\<close> again: the collection holds two equal entries and differs from what
  one call leaves.
\<close>

theorem C10_add_example_twice_duplicates:
  "sc_examples (add_example 1 '' VaR'' sample_concept) = [''VaR'']
   \<and> sc_examples (add_example 2 '' VaR'' (add_example 1 '' VaR'' sample_concept))
       = [''VaR'', ''VaR'']
   \<and> \<not> distinct (sc_examples (add_example 2 '' VaR'' (add_example 1 '' VaR'' sample_concept)))"
  by (simp add: add_example_def sample_concept_def strip_def is_space_def)

lemma add_example_twice_stripped:
  "strip e = e \<Longrightarrow>
     sc_examples (add_example t2 e (add_example t1 e c)) = sc_examples (add_example t1 e c)"
  by (simp add: add_example_def)

end
